theory Spec2Isabelle
  imports Main "HOL-Library.Word"
begin

section \<open>The TJpgDec adapter of lv\_tjpgd.c: data model\<close>

text \<open>
  The development embeds \<^verbatim>\<open>lv_tjpgd.c\<close>. Every operation returns an \<open>option\<close>:
  \<open>None\<close> stands for a call that has no defined result in C (a read or write outside a
  live allocation, a call through a null \<^verbatim>\<open>FILE*\<close>, a loop that does not stop);
  \<open>Some\<close> carries the returned value together with the updated program state.
\<close>

type_synonym byte = "8 word"

datatype lv_res_t = LV_RES_INV | LV_RES_OK

datatype JRESULT =
  JDR_OK | JDR_INTR | JDR_INP | JDR_MEM1 | JDR_MEM2 | JDR_PAR | JDR_FMT1 | JDR_FMT2 | JDR_FMT3

datatype lv_img_src_t =
  LV_IMG_SRC_VARIABLE | LV_IMG_SRC_FILE | LV_IMG_SRC_SYMBOL | LV_IMG_SRC_UNKNOWN

text \<open>
  \<^verbatim>\<open>JRECT\<close> of tjpgd.h: four 16-bit unsigned coordinates. The fields of the
  records carry a prefix where the name of the source is a constant of HOL.
\<close>

record JRECT =
  rect_left :: "16 word"
  rect_right :: "16 word"
  rect_top :: "16 word"
  rect_bottom :: "16 word"

record img_size =
  img_height :: "16 word"
  img_width :: "16 word"

subsection \<open>The C heap and the C streams\<close>

text \<open>
  A pointer is null (\<open>None\<close>) or a block number with a byte offset. \<^verbatim>\<open>malloc\<close>
  appends a block (taken to succeed, its bytes read as zero until written),
  \<^verbatim>\<open>free\<close> marks a block dead, and every access checks that the block is
  live and the range inside it.
\<close>

record block =
  bytes :: "byte list"
  live :: bool

type_synonym heap = "block list"
type_synonym ptr = "(nat \<times> nat) option"

definition malloc :: "heap \<Rightarrow> nat \<Rightarrow> heap \<times> ptr" where
  "malloc h n = (h @ [\<lparr>bytes = replicate n 0, live = True\<rparr>], Some (length h, 0))"

definition free :: "heap \<Rightarrow> ptr \<Rightarrow> heap option" where
  "free h p =
     (case p of
        None \<Rightarrow> Some h
      | Some (b, off) \<Rightarrow>
          if b < length h \<and> live (h ! b) \<and> off = 0
          then Some (h[b := (h ! b)\<lparr>live := False\<rparr>])
          else None)"

definition ptr_add :: "ptr \<Rightarrow> nat \<Rightarrow> ptr" where
  "ptr_add p n = (case p of None \<Rightarrow> None | Some (b, off) \<Rightarrow> Some (b, off + n))"

definition mem_read :: "heap \<Rightarrow> ptr \<Rightarrow> nat \<Rightarrow> byte list option" where
  "mem_read h p n =
     (case p of
        None \<Rightarrow> None
      | Some (b, off) \<Rightarrow>
          if b < length h \<and> live (h ! b) \<and> off + n \<le> length (bytes (h ! b))
          then Some (take n (drop off (bytes (h ! b))))
          else None)"

definition mem_write :: "heap \<Rightarrow> ptr \<Rightarrow> byte list \<Rightarrow> heap option" where
  "mem_write h p bs =
     (case p of
        None \<Rightarrow> None
      | Some (b, off) \<Rightarrow>
          if b < length h \<and> live (h ! b) \<and> off + length bs \<le> length (bytes (h ! b))
          then Some (h[b := (h ! b)\<lparr>bytes :=
                  take off (bytes (h ! b)) @ bs @ drop (off + length bs) (bytes (h ! b))\<rparr>])
          else None)"

text \<open>
  A stream is the bytes of the file with a read position. \<^verbatim>\<open>fopen\<close> looks the
  name up in the file system and appends a stream to the table of open streams; the
  source never calls \<^verbatim>\<open>fclose\<close>, so the table only grows.
\<close>

record stream =
  content :: "byte list"
  pos :: nat
  seekable :: bool

type_synonym FILE_ptr = "nat option"

definition fopen :: "(string \<Rightarrow> byte list option) \<Rightarrow> stream list \<Rightarrow> string
    \<Rightarrow> stream list \<times> FILE_ptr" where
  "fopen fs ss fn =
     (case fs fn of
        None \<Rightarrow> (ss, None)
      | Some bs \<Rightarrow> (ss @ [\<lparr>content = bs, pos = 0, seekable = True\<rparr>], Some (length ss)))"

definition fread :: "stream \<Rightarrow> nat \<Rightarrow> byte list \<times> stream" where
  "fread st n =
     (let got = take n (drop (pos st) (content st))
      in (got, st\<lparr>pos := pos st + length got\<rparr>))"

text \<open>\<^verbatim>\<open>fseek(fp, n, SEEK_CUR)\<close> with \<open>n \<ge> 0\<close>: 0 on success, -1 on a stream that cannot seek.\<close>

definition fseek_cur :: "stream \<Rightarrow> nat \<Rightarrow> int \<times> stream" where
  "fseek_cur st n = (if seekable st then (0, st\<lparr>pos := pos st + n\<rparr>) else (-1, st))"

definition ftell :: "stream list \<Rightarrow> FILE_ptr \<Rightarrow> nat option" where
  "ftell ss fp =
     (case fp of
        None \<Rightarrow> None
      | Some i \<Rightarrow> if i < length ss then Some (pos (ss ! i)) else None)"

subsection \<open>The device context, the decode session and the program state\<close>

record decoding_ctx_t =
  fp :: FILE_ptr
  frame_buffer :: ptr
  work :: ptr
  out_func_calls :: "32 word"
  frame_buffer_width :: "16 word"
  ctx_size :: img_size
  last_decoded_coord :: JRECT
  lvgl_feeder_ptr :: ptr
  after_decode_pos :: nat
  fp_consumed_bytes :: "32 word"

text \<open>
  \<^verbatim>\<open>JDEC\<close> is declared in tjpgd.h; the adapter reads and writes its \<^verbatim>\<open>width\<close>
  and \<^verbatim>\<open>height\<close> only. The rest of the session belongs to the engine and is kept
  as a value of an arbitrary type \<open>'e\<close>.
\<close>

record 'e JDEC =
  jd_width :: "16 word"
  jd_height :: "16 word"
  jd_private :: 'e

text \<open>
  The globals \<^verbatim>\<open>jdec\<close> and \<^verbatim>\<open>user_ctx\<close>, the two \<^verbatim>\<open>static\<close> locals
  of \<^verbatim>\<open>decoder_read\<close>, the heap, the open streams and the file system. The field
  \<open>decomp_calls\<close> is not in the source: it counts the invocations of \<^verbatim>\<open>jd_decomp\<close>.
\<close>

record 'e state =
  jdec :: "'e JDEC"
  user_ctx :: decoding_ctx_t
  buffered_data :: bool
  lines_sent :: "8 word"
  mem :: heap
  streams :: "stream list"
  files :: "string \<Rightarrow> byte list option"
  decomp_calls :: nat

text \<open>
  The macros of lv\_tjpgd.h, which is not among the sources, are parameters, and so are
  the two types of lvgl the size of the image passes through: \<open>to_lv_coord_t\<close> is the
  conversion of a 16-bit unsigned value to \<^verbatim>\<open>lv_coord_t\<close>, and \<open>to_header_field\<close> is
  the conversion an assignment to the \<^verbatim>\<open>w\<close> or the \<^verbatim>\<open>h\<close> field of
  \<^verbatim>\<open>lv_img_header_t\<close> performs, the result being what the field then reads as.
\<close>

record config =
  LV_TJPGD_SCALING_FACTOR :: "8 word"
  LV_TJPGD_SCALING_FACTOR_DIV :: int
  BYTES_ON_PIXEL :: nat
  to_lv_coord_t :: "16 word \<Rightarrow> int"
  to_header_field :: "int \<Rightarrow> int"

text \<open>
  The \<^verbatim>\<open>lv_img_header_t\<close> fields the adapter assigns; \<open>hdr_w\<close> and \<open>hdr_h\<close> hold what
  the fields read as after the assignment.
\<close>

record lv_img_header_t =
  hdr_always_zero :: nat
  hdr_cf :: nat
  hdr_w :: int
  hdr_h :: int

definition LV_IMG_CF_RAW :: nat where
  "LV_IMG_CF_RAW = 1"

record lv_img_decoder_dsc_t =
  dsc_src_type :: lv_img_src_t
  dsc_src :: string
  dsc_img_data :: ptr

text \<open>Division of C: the quotient is truncated towards zero.\<close>

definition c_div :: "int \<Rightarrow> int \<Rightarrow> int" where
  "c_div a b = sgn a * sgn b * (\<bar>a\<bar> div \<bar>b\<bar>)"

subsection \<open>The decompression engine\<close>

text \<open>
  Modelled from the spec: \<^verbatim>\<open>jd_prepare\<close> and \<^verbatim>\<open>jd_decomp\<close> (tjpgd.c) are
  not among the sources. The engine is a black box that calls the feed callback and the
  output callback any number of times and then returns a result code; a run of
  it is a tree whose nodes are the callback invocations, each continuing with what the
  callback returned. \<^verbatim>\<open>prepare\<close> yields the result code and the new session (native
  width and height); \<^verbatim>\<open>decompress\<close> yields the result code and the engine's own
  part of the session.
\<close>

datatype 'r jd_run =
  JD_Return 'r
| JD_In bool "16 word" "16 word \<Rightarrow> byte list \<Rightarrow> 'r jd_run"
| JD_Out "byte list" JRECT "16 word \<Rightarrow> 'r jd_run"

record 'e engine =
  jd_prepare :: "ptr \<Rightarrow> nat \<Rightarrow> (JRESULT \<times> 'e JDEC) jd_run"
  jd_decomp :: "'e JDEC \<Rightarrow> 8 word \<Rightarrow> (JRESULT \<times> 'e) jd_run"

definition TJPGD_WORK_BUFFER_SIZE :: nat where
  "TJPGD_WORK_BUFFER_SIZE = 20 * 1024"

definition VALID_FILE_EXTENSION :: string where
  "VALID_FILE_EXTENSION = ''jpg''"

section \<open>The callbacks\<close>

text \<open>
  \<^verbatim>\<open>on_feed_decoder_cb(jd, buff, nbyte)\<close>, with \<^verbatim>\<open>jd->device\<close> the global
  \<^verbatim>\<open>user_ctx\<close>. The flag says whether \<^verbatim>\<open>buff\<close> is non-null; the result is the
  returned count, the bytes stored into \<^verbatim>\<open>buff\<close> and the new state.
\<close>

definition on_feed_decoder_cb :: "bool \<Rightarrow> 16 word \<Rightarrow> 'e state
    \<Rightarrow> (16 word \<times> byte list \<times> 'e state) option" where
  "on_feed_decoder_cb buff nbyte s =
     (let ctx = (user_ctx s)\<lparr>fp_consumed_bytes :=
                  fp_consumed_bytes (user_ctx s) + ucast nbyte\<rparr>
      in case fp ctx of
           None \<Rightarrow> None
         | Some i \<Rightarrow>
             if i < length (streams s) then
               (if buff then
                  (let (got, st) = fread (streams s ! i) (unat nbyte)
                   in Some (word_of_nat (length got), got,
                        s\<lparr>user_ctx := ctx, streams := (streams s)[i := st]\<rparr>))
                else
                  (let (rc, st) = fseek_cur (streams s ! i) (unat nbyte)
                   in Some (if rc \<noteq> 0 then 0 else nbyte, [],
                        s\<lparr>user_ctx := ctx, streams := (streams s)[i := st]\<rparr>)))
             else None)"

text \<open>
  The loop \<^verbatim>\<open>for (uint16_t y = rect->top; y <= rect->bottom; y++)\<close> of the output
  callbacks: one \<^verbatim>\<open>memcpy\<close> of \<open>bws\<close> bytes per round, \<open>sp\<close> (the \<^verbatim>\<open>src\<close> of the source) an offset into the
  bitmap of the engine, \<open>dst\<close> a pointer into the heap. The counter is 16 bits wide and
  wraps, so the loop need not stop.
\<close>

partial_function (option) copy_lines :: "16 word \<Rightarrow> 16 word \<Rightarrow> byte list \<Rightarrow> nat \<Rightarrow> ptr
    \<Rightarrow> nat \<Rightarrow> nat \<Rightarrow> heap \<Rightarrow> heap option" where
  "copy_lines y ybot bitmap sp dst bws bwd hp =
     (if y \<le> ybot then
        (if sp + bws \<le> length bitmap then
           (case mem_write hp dst (take bws (drop sp bitmap)) of
              None \<Rightarrow> None
            | Some hp' \<Rightarrow>
                copy_lines (y + 1) ybot bitmap (sp + bws) (ptr_add dst bwd) bws bwd hp')
         else None)
      else Some hp)"

declare copy_lines.simps [code]

text \<open>
  \<^verbatim>\<open>on_decoder_line_output_cb(jd, bitmap, rect)\<close>. The offset of \<open>dst\<close> is computed
  in \<^verbatim>\<open>int\<close>; \<open>bws\<close> and \<open>bwd\<close> are \<^verbatim>\<open>uint16_t\<close> and keep the low 16 bits.
\<close>

definition line_bws :: "config \<Rightarrow> JRECT \<Rightarrow> 16 word" where
  "line_bws cfg rect =
     word_of_int (int (BYTES_ON_PIXEL cfg) * (uint (rect_right rect) - uint (rect_left rect) + 1))"

definition line_bwd :: "config \<Rightarrow> decoding_ctx_t \<Rightarrow> 16 word" where
  "line_bwd cfg ctx = word_of_nat (BYTES_ON_PIXEL cfg * unat (frame_buffer_width ctx))"

definition line_dst :: "config \<Rightarrow> decoding_ctx_t \<Rightarrow> JRECT \<Rightarrow> ptr" where
  "line_dst cfg ctx rect =
     ptr_add (frame_buffer ctx)
       (BYTES_ON_PIXEL cfg *
          (unat (rect_top rect) * unat (frame_buffer_width ctx) + unat (rect_left rect)))"

definition on_decoder_line_output_cb :: "config \<Rightarrow> byte list \<Rightarrow> JRECT \<Rightarrow> 'e state
    \<Rightarrow> (16 word \<times> 'e state) option" where
  "on_decoder_line_output_cb cfg bitmap rect s =
     (let ctx = (user_ctx s)\<lparr>out_func_calls := out_func_calls (user_ctx s) + 1,
                               last_decoded_coord := rect\<rparr>
      in case copy_lines (rect_top rect) (rect_bottom rect) bitmap 0 (line_dst cfg ctx rect)
                (unat (line_bws cfg rect)) (unat (line_bwd cfg ctx)) (mem s) of
           None \<Rightarrow> None
         | Some hp \<Rightarrow> Some (1, s\<lparr>user_ctx := ctx, mem := hp\<rparr>))"

text \<open>
  Running the engine against the program: each node invokes the callback registered
  for it. \<^verbatim>\<open>jd_prepare\<close> registers no output callback.
\<close>

primrec run_engine :: "(byte list \<Rightarrow> JRECT \<Rightarrow> 'e state \<Rightarrow> (16 word \<times> 'e state) option) option
    \<Rightarrow> 'r jd_run \<Rightarrow> 'e state \<Rightarrow> ('r \<times> 'e state) option" where
  "run_engine outfunc (JD_Return r) s = Some (r, s)"
| "run_engine outfunc (JD_In buff nbyte k) s =
     (case on_feed_decoder_cb buff nbyte s of
        None \<Rightarrow> None
      | Some (rv, got, s') \<Rightarrow> run_engine outfunc (k rv got) s')"
| "run_engine outfunc (JD_Out bitmap rect k) s =
     (case outfunc of
        None \<Rightarrow> None
      | Some f \<Rightarrow>
          (case f bitmap rect s of
             None \<Rightarrow> None
           | Some (rv, s') \<Rightarrow> run_engine outfunc (k rv) s'))"

section \<open>The decoder operations\<close>

text \<open>
  The engine works in the pool it is given: handing it a non-null pointer that is not a
  live block of the stated size has no defined result.
\<close>

definition pool_ok :: "heap \<Rightarrow> ptr \<Rightarrow> nat \<Rightarrow> bool" where
  "pool_ok hp p n = (p = None \<or> mem_read hp p n \<noteq> None)"

text \<open>\<^verbatim>\<open>lv_tjpgd_init\<close>: allocates the work area; the registration with lvgl is outside.\<close>

definition lv_tjpgd_init :: "'e state \<Rightarrow> 'e state" where
  "lv_tjpgd_init s =
     (let (hp, p) = malloc (mem s) TJPGD_WORK_BUFFER_SIZE
      in s\<lparr>user_ctx := (user_ctx s)\<lparr>work := p\<rparr>, mem := hp\<rparr>)"

text \<open>
  \<^verbatim>\<open>!strcmp(&fn[strlen(fn) - 3], "jpg")\<close>: the last three characters are the
  extension. On a name shorter than three characters the index wraps and the read is out
  of range.
\<close>

definition has_valid_extension :: "string \<Rightarrow> bool option" where
  "has_valid_extension fn =
     (if 3 \<le> length fn then Some (drop (length fn - 3) fn = VALID_FILE_EXTENSION) else None)"

definition decoder_info :: "config \<Rightarrow> 'e engine \<Rightarrow> lv_img_src_t \<Rightarrow> string \<Rightarrow> lv_img_header_t
    \<Rightarrow> 'e state \<Rightarrow> (lv_res_t \<times> lv_img_header_t \<times> 'e state) option" where
  "decoder_info cfg eng styp fn header s =
     (if styp = LV_IMG_SRC_FILE then
        (case has_valid_extension fn of
           None \<Rightarrow> None
         | Some False \<Rightarrow> Some (LV_RES_INV, header, s)
         | Some True \<Rightarrow>
             (let (ss, f) = fopen (files s) (streams s) fn;
                  s1 = s\<lparr>user_ctx := (user_ctx s)\<lparr>fp := f\<rparr>, streams := ss\<rparr>
              in if f = None then Some (LV_RES_INV, header, s1)
                 else if \<not> pool_ok (mem s1) (work (user_ctx s1)) TJPGD_WORK_BUFFER_SIZE then None
                 else
                   (case run_engine None
                           (jd_prepare eng (work (user_ctx s1)) TJPGD_WORK_BUFFER_SIZE) s1 of
                      None \<Rightarrow> None
                    | Some ((res, jd), s2) \<Rightarrow>
                        (let s3 = s2\<lparr>jdec := jd\<rparr>
                         in if res = JDR_OK then
                              (let header' = header\<lparr>hdr_always_zero := 0,
                                      hdr_cf := LV_IMG_CF_RAW,
                                      hdr_w := to_header_field cfg
                                                 (c_div (to_lv_coord_t cfg (jd_width jd))
                                                    (LV_TJPGD_SCALING_FACTOR_DIV cfg)),
                                      hdr_h := to_header_field cfg 8\<rparr>
                               in Some (LV_RES_OK, header',
                                    s3\<lparr>user_ctx := (user_ctx s3)\<lparr>
                                      frame_buffer_width :=
                                        word_of_int (c_div (uint (jd_width jd))
                                                       (LV_TJPGD_SCALING_FACTOR_DIV cfg)),
                                      ctx_size := \<lparr>img_height = word_of_int (hdr_h header'),
                                                   img_width = word_of_int (hdr_w header')\<rparr>\<rparr>\<rparr>))
                            else Some (LV_RES_INV, header, s3)))))
      else if styp = LV_IMG_SRC_VARIABLE then Some (LV_RES_OK, header, s)
      else Some (LV_RES_INV, header, s))"

text \<open>\<^verbatim>\<open>decoder_open\<close>, with the eager branch compiled out (\<^verbatim>\<open>#if 0\<close>).\<close>

definition decoder_open :: "lv_img_decoder_dsc_t \<Rightarrow> 'e state
    \<Rightarrow> (lv_res_t \<times> lv_img_decoder_dsc_t \<times> 'e state) option" where
  "decoder_open dsc s =
     (if dsc_src_type dsc = LV_IMG_SRC_FILE then
        (case has_valid_extension (dsc_src dsc) of
           None \<Rightarrow> None
         | Some True \<Rightarrow> Some (LV_RES_OK, dsc\<lparr>dsc_img_data := None\<rparr>, s)
         | Some False \<Rightarrow> Some (LV_RES_INV, dsc, s))
      else if dsc_src_type dsc = LV_IMG_SRC_VARIABLE then Some (LV_RES_OK, dsc, s)
      else Some (LV_RES_INV, dsc, s))"

text \<open>
  \<^verbatim>\<open>decoder_read(decoder, dsc, x, y, len, buf)\<close>. The result is the returned code,
  the bytes stored at the start of \<^verbatim>\<open>buf\<close> and the new state. A negative \<open>len\<close>
  turns into a huge \<^verbatim>\<open>size_t\<close>, which no \<^verbatim>\<open>memcpy\<close> survives.
\<close>

definition decoder_read :: "config \<Rightarrow> 'e engine \<Rightarrow> lv_img_decoder_dsc_t \<Rightarrow> int \<Rightarrow> int \<Rightarrow> int
    \<Rightarrow> 'e state \<Rightarrow> (lv_res_t \<times> byte list \<times> 'e state) option" where
  "decoder_read cfg eng dsc x y len s =
     (if len < 0 then None
      else if buffered_data s then
        (case mem_read (mem s) (lvgl_feeder_ptr (user_ctx s)) (nat len * BYTES_ON_PIXEL cfg) of
           None \<Rightarrow> None
         | Some out \<Rightarrow>
             (let s1 = s\<lparr>user_ctx := (user_ctx s)\<lparr>lvgl_feeder_ptr :=
                          ptr_add (lvgl_feeder_ptr (user_ctx s)) (nat len * BYTES_ON_PIXEL cfg)\<rparr>,
                        lines_sent := lines_sent s + 1\<rparr>
              in if 7 < lines_sent s1 then
                   (case free (mem s1) (frame_buffer (user_ctx s1)) of
                      None \<Rightarrow> None
                    | Some hp \<Rightarrow>
                        Some (LV_RES_OK, out,
                          s1\<lparr>buffered_data := False, lines_sent := 0, mem := hp,
                             user_ctx := (user_ctx s1)\<lparr>frame_buffer := None\<rparr>\<rparr>))
                 else Some (LV_RES_OK, out, s1)))
      else
        (let decoded_image_buffer_size =
               (unat (img_width (ctx_size (user_ctx s))) * 8 * BYTES_ON_PIXEL cfg) mod 2 ^ 32;
             (hp, p) = malloc (mem s) decoded_image_buffer_size;
             s1 = s\<lparr>user_ctx := (user_ctx s)\<lparr>frame_buffer := p\<rparr>, mem := hp\<rparr>
         in case ftell (streams s1) (fp (user_ctx s1)) of
              None \<Rightarrow> None
            | Some before_decompression \<Rightarrow>
                (let s2 = s1\<lparr>jdec := (jdec s1)\<lparr>jd_height := 8\<rparr>,
                            decomp_calls := decomp_calls s1 + 1\<rparr>
                 in if \<not> pool_ok (mem s2) (work (user_ctx s2)) TJPGD_WORK_BUFFER_SIZE then None
                    else
                      (case run_engine (Some (on_decoder_line_output_cb cfg))
                              (jd_decomp eng (jdec s2) (LV_TJPGD_SCALING_FACTOR cfg)) s2 of
                         None \<Rightarrow> None
                       | Some ((error, priv), s3) \<Rightarrow>
                           (let s4 = s3\<lparr>jdec := (jdec s3)\<lparr>jd_private := priv\<rparr>\<rparr>;
                                bytes_to_send = nat len * BYTES_ON_PIXEL cfg
                            in case mem_read (mem s4) (frame_buffer (user_ctx s4)) bytes_to_send of
                                 None \<Rightarrow> None
                               | Some out \<Rightarrow>
                                   (case ftell (streams s4) (fp (user_ctx s4)) of
                                      None \<Rightarrow> None
                                    | Some after \<Rightarrow>
                                        Some (LV_RES_OK, out,
                                          s4\<lparr>lines_sent := lines_sent s4 + 1,
                                             user_ctx := (user_ctx s4)\<lparr>
                                               lvgl_feeder_ptr :=
                                                 ptr_add (frame_buffer (user_ctx s4)) bytes_to_send,
                                               after_decode_pos := after\<rparr>,
                                             buffered_data := True\<rparr>)))))))"

text \<open>\<^verbatim>\<open>decoder_close\<close>: two calls of \<^verbatim>\<open>free\<close>, the second one guarded.\<close>

definition decoder_close :: "lv_img_decoder_dsc_t \<Rightarrow> 'e state \<Rightarrow> 'e state option" where
  "decoder_close dsc s =
     (case free (mem s) (work (user_ctx s)) of
        None \<Rightarrow> None
      | Some hp \<Rightarrow>
          if dsc_img_data dsc \<noteq> None then
            (case free hp (dsc_img_data dsc) of
               None \<Rightarrow> None
             | Some hp' \<Rightarrow> Some (s\<lparr>mem := hp'\<rparr>))
          else Some (s\<lparr>mem := hp\<rparr>))"

section \<open>Sequences of calls, and the cache as an automaton\<close>




text \<open>
  The host calls \<^verbatim>\<open>decoder_read\<close> once per line. \<open>read_lines\<close> runs a list of
  requests \<open>(x, y, len)\<close> in order and records, for each call, the returned code, the
  bytes delivered and how many times that call invoked \<^verbatim>\<open>jd_decomp\<close>.
\<close>

fun read_lines :: "config \<Rightarrow> 'e engine \<Rightarrow> lv_img_decoder_dsc_t \<Rightarrow> (int \<times> int \<times> int) list
    \<Rightarrow> 'e state \<Rightarrow> ((lv_res_t \<times> byte list \<times> nat) list \<times> 'e state) option" where
  "read_lines cfg eng dsc [] s = Some ([], s)"
| "read_lines cfg eng dsc ((x, y, len) # reqs) s =
     (case decoder_read cfg eng dsc x y len s of
        None \<Rightarrow> None
      | Some (r, out, s') \<Rightarrow>
          (case read_lines cfg eng dsc reqs s' of
             None \<Rightarrow> None
           | Some (rs, s'') \<Rightarrow>
               Some ((r, out, decomp_calls s' - decomp_calls s) # rs, s'')))"

text \<open>
  The two \<^verbatim>\<open>static\<close> locals of \<^verbatim>\<open>decoder_read\<close> form an automaton: one step
  of it per call, and the calls at which it decodes.
\<close>

definition cache_step :: "bool \<times> 8 word \<Rightarrow> bool \<times> 8 word" where
  "cache_step c =
     (if fst c then (if 7 < snd c + 1 then (False, 0) else (True, snd c + 1))
      else (True, snd c + 1))"




text \<open>
  The rows the output callbacks are meant to copy, counted: \<open>n\<close> rows of \<open>bws\<close> bytes,
  row after row of the bitmap, each \<open>bwd\<close> bytes after the one before in the frame buffer.
\<close>

primrec copy_rows :: "nat \<Rightarrow> byte list \<Rightarrow> nat \<Rightarrow> ptr \<Rightarrow> nat \<Rightarrow> nat \<Rightarrow> heap \<Rightarrow> heap option" where
  "copy_rows 0 bitmap sp dst bws bwd hp = Some hp"
| "copy_rows (Suc n) bitmap sp dst bws bwd hp =
     (if sp + bws \<le> length bitmap then
        (case mem_write hp dst (take bws (drop sp bitmap)) of
           None \<Rightarrow> None
         | Some hp' \<Rightarrow> copy_rows n bitmap (sp + bws) (ptr_add dst bwd) bws bwd hp')
      else None)"

section \<open>A concrete session\<close>

text \<open>
  A configuration without scaling, with three bytes per pixel, a 16-bit signed
  \<^verbatim>\<open>lv_coord_t\<close> and header fields that hold every value; the same configuration with
  header fields of 11 bits, as lvgl 7 declares \<^verbatim>\<open>w\<close> and \<^verbatim>\<open>h\<close>; a file system with one
  file; and two engines: one that reads two bytes, reports a 2 by 16 image and emits
  one 2 by 2 rectangle per decompression, and one that fails both calls.
\<close>

definition example_cfg :: config where
  "example_cfg = \<lparr>LV_TJPGD_SCALING_FACTOR = 0, LV_TJPGD_SCALING_FACTOR_DIV = 1,
     BYTES_ON_PIXEL = 3, to_lv_coord_t = sint, to_header_field = (\<lambda>v. v)\<rparr>"

definition lvgl_cfg :: config where
  "lvgl_cfg = \<lparr>LV_TJPGD_SCALING_FACTOR = 0, LV_TJPGD_SCALING_FACTOR_DIV = 1,
     BYTES_ON_PIXEL = 3, to_lv_coord_t = sint, to_header_field = (\<lambda>v. v mod 2048)\<rparr>"

definition example_files :: "string \<Rightarrow> byte list option" where
  "example_files fn = (if fn = ''a.jpg'' then Some [255, 216, 255, 217] else None)"

definition example_engine :: "unit engine" where
  "example_engine =
     \<lparr>jd_prepare = (\<lambda>pool sz. JD_In True 2 (\<lambda>rv got.
          if rv = 2 then JD_Return (JDR_OK, \<lparr>jd_width = 2, jd_height = 16, jd_private = ()\<rparr>)
          else JD_Return (JDR_INP, \<lparr>jd_width = 0, jd_height = 0, jd_private = ()\<rparr>))),
      jd_decomp = (\<lambda>jd scale.
          JD_Out [1, 2, 3, 4, 5, 6, 7, 8, 9, 10, 11, 12]
            \<lparr>rect_left = 0, rect_right = 1, rect_top = 0, rect_bottom = 1\<rparr>
            (\<lambda>rv. JD_Return (JDR_OK, ())))\<rparr>"

definition failing_engine :: "unit engine" where
  "failing_engine =
     \<lparr>jd_prepare = (\<lambda>pool sz.
          JD_Return (JDR_FMT1, \<lparr>jd_width = 0, jd_height = 0, jd_private = ()\<rparr>)),
      jd_decomp = (\<lambda>jd scale. JD_Return (JDR_INP, ()))\<rparr>"

definition example_dsc :: lv_img_decoder_dsc_t where
  "example_dsc = \<lparr>dsc_src_type = LV_IMG_SRC_FILE, dsc_src = ''a.jpg'', dsc_img_data = None\<rparr>"

definition example_header :: lv_img_header_t where
  "example_header = \<lparr>hdr_always_zero = 0, hdr_cf = 0, hdr_w = 0, hdr_h = 0\<rparr>"

text \<open>The program at start-up (all globals zero), and after \<^verbatim>\<open>lv_tjpgd_init\<close>.\<close>

definition startup_state :: "unit state" where
  "startup_state =
     \<lparr>jdec = \<lparr>jd_width = 0, jd_height = 0, jd_private = ()\<rparr>,
      user_ctx = \<lparr>fp = None, frame_buffer = None, work = None, out_func_calls = 0,
        frame_buffer_width = 0, ctx_size = \<lparr>img_height = 0, img_width = 0\<rparr>,
        last_decoded_coord = \<lparr>rect_left = 0, rect_right = 0, rect_top = 0, rect_bottom = 0\<rparr>,
        lvgl_feeder_ptr = None, after_decode_pos = 0, fp_consumed_bytes = 0\<rparr>,
      buffered_data = False, lines_sent = 0, mem = [], streams = [],
      files = example_files, decomp_calls = 0\<rparr>"

definition example_state :: "unit state" where
  "example_state = lv_tjpgd_init startup_state"

text \<open>
  An engine for a file that is cut off after its header: \<^verbatim>\<open>jd_prepare\<close> succeeds as
  above, \<^verbatim>\<open>jd_decomp\<close> reports \<^verbatim>\<open>JDR_INP\<close> without emitting a rectangle.
\<close>

definition truncated_engine :: "unit engine" where
  "truncated_engine =
     \<lparr>jd_prepare = jd_prepare example_engine,
      jd_decomp = (\<lambda>jd scale. JD_Return (JDR_INP, ()))\<rparr>"

text \<open>
  The states of the session on \<^verbatim>\<open>a.jpg\<close>: after \<^verbatim>\<open>decoder_info\<close>, after the
  first line, after seven lines, after sixteen lines, and after a
  \<^verbatim>\<open>decoder_close\<close> that follows the first line.
\<close>

definition prepared_state :: "unit state" where
  "prepared_state =
     \<lparr>jdec = \<lparr>jd_width = 2, jd_height = 16, jd_private = ()\<rparr>,
      user_ctx = \<lparr>fp = Some 0, frame_buffer = None, work = Some (0, 0), out_func_calls = 0,
        frame_buffer_width = 2, ctx_size = \<lparr>img_height = 8, img_width = 2\<rparr>,
        last_decoded_coord = \<lparr>rect_left = 0, rect_right = 0, rect_top = 0, rect_bottom = 0\<rparr>,
        lvgl_feeder_ptr = None, after_decode_pos = 0, fp_consumed_bytes = 2\<rparr>,
      buffered_data = False, lines_sent = 0,
      mem = [\<lparr>bytes = replicate 20480 0, live = True\<rparr>],
      streams = [\<lparr>content = [255, 216, 255, 217], pos = 2, seekable = True\<rparr>],
      files = example_files, decomp_calls = 0\<rparr>"

definition strip_state :: "unit state" where
  "strip_state =
     \<lparr>jdec = \<lparr>jd_width = 2, jd_height = 8, jd_private = ()\<rparr>,
      user_ctx = \<lparr>fp = Some 0, frame_buffer = Some (1, 0), work = Some (0, 0),
        out_func_calls = 1,
        frame_buffer_width = 2, ctx_size = \<lparr>img_height = 8, img_width = 2\<rparr>,
        last_decoded_coord = \<lparr>rect_left = 0, rect_right = 1, rect_top = 0, rect_bottom = 1\<rparr>,
        lvgl_feeder_ptr = Some (1, 6), after_decode_pos = 2, fp_consumed_bytes = 2\<rparr>,
      buffered_data = True, lines_sent = 1,
      mem = [\<lparr>bytes = replicate 20480 0, live = True\<rparr>,
             \<lparr>bytes = [1, 2, 3, 4, 5, 6, 7, 8, 9, 10, 11, 12] @ replicate 36 0, live = True\<rparr>],
      streams = [\<lparr>content = [255, 216, 255, 217], pos = 2, seekable = True\<rparr>],
      files = example_files, decomp_calls = 1\<rparr>"




definition closed_state :: "unit state" where
  "closed_state =
     strip_state\<lparr>mem :=
       [\<lparr>bytes = replicate 20480 0, live = False\<rparr>,
        \<lparr>bytes = [1, 2, 3, 4, 5, 6, 7, 8, 9, 10, 11, 12] @ replicate 36 0, live = True\<rparr>]\<rparr>"

text \<open>
  An engine that reports an image 40001 pixels wide, and the session after
  \<^verbatim>\<open>decoder_info\<close> with it under lvgl's types.
\<close>

definition huge_engine :: "unit engine" where
  "huge_engine =
     \<lparr>jd_prepare = (\<lambda>pool sz. JD_In True 2 (\<lambda>rv got.
          if rv = 2
          then JD_Return (JDR_OK, \<lparr>jd_width = 40001, jd_height = 16, jd_private = ()\<rparr>)
          else JD_Return (JDR_INP, \<lparr>jd_width = 0, jd_height = 0, jd_private = ()\<rparr>))),
      jd_decomp = (\<lambda>jd scale. JD_Return (JDR_OK, ()))\<rparr>"

definition huge_prepared_state :: "unit state" where
  "huge_prepared_state =
     prepared_state\<lparr>
       jdec := \<lparr>jd_width = 40001, jd_height = 16, jd_private = ()\<rparr>,
       user_ctx := (user_ctx prepared_state)\<lparr>frame_buffer_width := 40001,
         ctx_size := \<lparr>img_height = 8, img_width = 1089\<rparr>\<rparr>\<rparr>"

text \<open>
  The program after a \<^verbatim>\<open>decoder_info\<close> on \<^verbatim>\<open>a.jpg\<close> in which the engine rejected
  the file.
\<close>

definition failed_info_state :: "unit state" where
  "failed_info_state =
     example_state\<lparr>user_ctx := (user_ctx example_state)\<lparr>fp := Some 0\<rparr>,
       streams := [\<lparr>content = [255, 216, 255, 217], pos = 0, seekable = True\<rparr>]\<rparr>"


text \<open>
  An image 21846 pixels wide, three bytes per pixel: the engine that reports it and emits
  a rectangle one pixel wide and two rows high, the session after \<^verbatim>\<open>decoder_info\<close>,
  and the state in which the first \<^verbatim>\<open>decoder_read\<close> runs the engine.
\<close>

definition wide_rect :: JRECT where
  "wide_rect = \<lparr>rect_left = 0, rect_right = 0, rect_top = 0, rect_bottom = 1\<rparr>"

definition wide_engine :: "unit engine" where
  "wide_engine =
     \<lparr>jd_prepare = (\<lambda>pool sz. JD_In True 2 (\<lambda>rv got.
          if rv = 2
          then JD_Return (JDR_OK, \<lparr>jd_width = 21846, jd_height = 16, jd_private = ()\<rparr>)
          else JD_Return (JDR_INP, \<lparr>jd_width = 0, jd_height = 0, jd_private = ()\<rparr>))),
      jd_decomp = (\<lambda>jd scale.
          JD_Out [1, 2, 3, 4, 5, 6] wide_rect (\<lambda>rv. JD_Return (JDR_OK, ())))\<rparr>"

definition wide_prepared_state :: "unit state" where
  "wide_prepared_state =
     prepared_state\<lparr>
       jdec := \<lparr>jd_width = 21846, jd_height = 16, jd_private = ()\<rparr>,
       user_ctx := (user_ctx prepared_state)\<lparr>frame_buffer_width := 21846,
         ctx_size := \<lparr>img_height = 8, img_width = 21846\<rparr>\<rparr>\<rparr>"

definition wide_state :: "unit state" where
  "wide_state =
     wide_prepared_state\<lparr>
       jdec := \<lparr>jd_width = 21846, jd_height = 8, jd_private = ()\<rparr>,
       user_ctx := (user_ctx wide_prepared_state)\<lparr>frame_buffer := Some (1, 0)\<rparr>,
       mem := [\<lparr>bytes = replicate 20480 0, live = True\<rparr>,
               \<lparr>bytes = replicate 524304 0, live = True\<rparr>],
       decomp_calls := 1\<rparr>"

section \<open>What the engine's callbacks leave alone\<close>

lemma c_div_pos: "0 \<le> a \<Longrightarrow> 0 < b \<Longrightarrow> c_div a b = a div b"
  by (cases "a = 0") (simp_all add: c_div_def)

lemma on_feed_decoder_cb_frame:
  assumes "on_feed_decoder_cb b n s = Some (rv, got, s')"
  shows "jdec s' = jdec s \<and> buffered_data s' = buffered_data s \<and> lines_sent s' = lines_sent s
       \<and> decomp_calls s' = decomp_calls s \<and> files s' = files s \<and> mem s' = mem s
       \<and> length (streams s') = length (streams s)
       \<and> fp (user_ctx s') = fp (user_ctx s) \<and> work (user_ctx s') = work (user_ctx s)
       \<and> frame_buffer (user_ctx s') = frame_buffer (user_ctx s)
       \<and> ctx_size (user_ctx s') = ctx_size (user_ctx s)"
  using assms
  by (auto simp: on_feed_decoder_cb_def Let_def split: option.splits if_splits prod.splits)

lemma on_decoder_line_output_cb_frame:
  assumes "on_decoder_line_output_cb cfg bm rect s = Some (rv, s')"
  shows "jdec s' = jdec s \<and> buffered_data s' = buffered_data s \<and> lines_sent s' = lines_sent s
       \<and> decomp_calls s' = decomp_calls s \<and> files s' = files s
       \<and> streams s' = streams s
       \<and> fp (user_ctx s') = fp (user_ctx s) \<and> work (user_ctx s') = work (user_ctx s)
       \<and> frame_buffer (user_ctx s') = frame_buffer (user_ctx s)
       \<and> ctx_size (user_ctx s') = ctx_size (user_ctx s) \<and> rv = 1"
  using assms
  by (auto simp: on_decoder_line_output_cb_def Let_def split: option.splits)

lemma run_engine_frame:
  "run_engine (Some (on_decoder_line_output_cb cfg)) t s = Some (r, s') \<Longrightarrow>
     jdec s' = jdec s \<and> buffered_data s' = buffered_data s \<and> lines_sent s' = lines_sent s
     \<and> decomp_calls s' = decomp_calls s \<and> files s' = files s
     \<and> length (streams s') = length (streams s)
     \<and> fp (user_ctx s') = fp (user_ctx s) \<and> work (user_ctx s') = work (user_ctx s)
     \<and> frame_buffer (user_ctx s') = frame_buffer (user_ctx s)
     \<and> ctx_size (user_ctx s') = ctx_size (user_ctx s)"
proof (induction t arbitrary: s)
  case (JD_Return x)
  then show ?case by simp
next
  case (JD_In b n k)
  from JD_In.prems obtain rv got s1 where
    cb: "on_feed_decoder_cb b n s = Some (rv, got, s1)"
    and rest: "run_engine (Some (on_decoder_line_output_cb cfg)) (k rv got) s1 = Some (r, s')"
    by (auto split: option.splits)
  have "k rv got \<in> range (k rv)" by simp
  moreover have "k rv \<in> range k" by simp
  ultimately show ?case
    using JD_In.IH [of "k rv" "k rv got" s1] rest on_feed_decoder_cb_frame [OF cb] by simp
next
  case (JD_Out bm rect k)
  from JD_Out.prems obtain rv s1 where
    cb: "on_decoder_line_output_cb cfg bm rect s = Some (rv, s1)"
    and rest: "run_engine (Some (on_decoder_line_output_cb cfg)) (k rv) s1 = Some (r, s')"
    by (auto split: option.splits)
  show ?case
    using JD_Out.IH [of "k rv" s1] rest on_decoder_line_output_cb_frame [OF cb] by simp
qed

lemma run_engine_prepare_frame:
  "run_engine None t s = Some (r, s') \<Longrightarrow>
     jdec s' = jdec s \<and> buffered_data s' = buffered_data s \<and> lines_sent s' = lines_sent s
     \<and> decomp_calls s' = decomp_calls s \<and> files s' = files s \<and> mem s' = mem s
     \<and> length (streams s') = length (streams s)
     \<and> fp (user_ctx s') = fp (user_ctx s) \<and> work (user_ctx s') = work (user_ctx s)
     \<and> frame_buffer (user_ctx s') = frame_buffer (user_ctx s)"
proof (induction t arbitrary: s)
  case (JD_Return x)
  then show ?case by simp
next
  case (JD_In b n k)
  from JD_In.prems obtain rv got s1 where
    cb: "on_feed_decoder_cb b n s = Some (rv, got, s1)"
    and rest: "run_engine None (k rv got) s1 = Some (r, s')"
    by (auto split: option.splits)
  show ?case
    using JD_In.IH [of "k rv" "k rv got" s1] rest on_feed_decoder_cb_frame [OF cb] by simp
next
  case (JD_Out bm rect k)
  then show ?case by simp
qed

section \<open>The cache automaton of decoder\_read\<close>

lemma decoder_read_cache:
  assumes "decoder_read cfg eng dsc x y len s = Some (r, out, s')"
  shows "(buffered_data s', lines_sent s') = cache_step (buffered_data s, lines_sent s)
       \<and> decomp_calls s' = decomp_calls s + (if buffered_data s then 0 else 1)
       \<and> r = LV_RES_OK"
proof (cases "buffered_data s")
  case True
  with assms show ?thesis
    by (auto simp: decoder_read_def cache_step_def Let_def split: if_splits option.splits)
next
  case False
  with assms show ?thesis
    by (auto simp: decoder_read_def cache_step_def Let_def malloc_def
          split: if_splits option.splits prod.splits dest!: run_engine_frame)
qed



section \<open>The concrete session, evaluated\<close>

lemmas example_defs =
  decoder_read_def decoder_info_def decoder_close_def decoder_open_def
  example_cfg_def example_engine_def
  example_dsc_def example_header_def example_files_def
  example_state_def startup_state_def lv_tjpgd_init_def
  prepared_state_def strip_state_def
  has_valid_extension_def VALID_FILE_EXTENSION_def LV_IMG_CF_RAW_def c_div_def
  malloc_def free_def mem_read_def mem_write_def ptr_add_def
  fopen_def fread_def fseek_cur_def ftell_def pool_ok_def TJPGD_WORK_BUFFER_SIZE_def
  on_feed_decoder_cb_def on_decoder_line_output_cb_def line_dst_def line_bws_def line_bwd_def
  copy_lines.simps word_le_nat_alt word_less_nat_alt Let_def


lemma example_info:
  "decoder_info example_cfg example_engine LV_IMG_SRC_FILE ''a.jpg'' example_header example_state
     = Some (LV_RES_OK, \<lparr>hdr_always_zero = 0, hdr_cf = 1, hdr_w = 2, hdr_h = 8\<rparr>, prepared_state)"
  by (simp add: example_defs)

lemma example_first_read:
  "decoder_read example_cfg example_engine example_dsc 0 0 2 prepared_state
     = Some (LV_RES_OK, [1, 2, 3, 4, 5, 6], strip_state)"
  by (simp add: example_defs)



section \<open>One strip: the call that decodes and the calls that are served\<close>








lemma read_lines_flags:
  "read_lines cfg eng dsc reqs s = Some (rs, s') \<Longrightarrow>
     (buffered_data s', lines_sent s')
       = (cache_step ^^ length reqs) (buffered_data s, lines_sent s)"
proof (induction reqs arbitrary: s rs)
  case Nil
  then show ?case by simp
next
  case (Cons q reqs)
  obtain x y len where q: "q = (x, y, len)" by (cases q)
  from Cons.prems q obtain r out s1 rs1 where
    step: "decoder_read cfg eng dsc x y len s = Some (r, out, s1)"
    and rest: "read_lines cfg eng dsc reqs s1 = Some (rs1, s')"
    by (auto split: option.splits)
  from decoder_read_cache [OF step] Cons.IH [OF rest] show ?case
    by (simp add: funpow_swap1)
qed






text \<open>
  Under lvgl's types a native width below 32768 survives the conversion to
  \<^verbatim>\<open>lv_coord_t\<close>, and a header field keeps every value from 0 to 2047.
\<close>

lemma lvgl_types_in_range:
  "uint w < 32768 \<Longrightarrow> to_lv_coord_t lvgl_cfg w = uint w"
  "0 \<le> v \<Longrightarrow> v < 2048 \<Longrightarrow> to_header_field lvgl_cfg v = v"
  "to_header_field lvgl_cfg 8 = 8"
proof -
  show "to_lv_coord_t lvgl_cfg w = uint w" if "uint w < 32768"
  proof -
    have "- 32768 \<le> uint w"
      by (rule order_trans [of _ 0]) simp_all
    with that have "signed_take_bit 15 (uint w) = uint w"
      by (simp add: signed_take_bit_int_eq_self_iff)
    then show ?thesis
      by (simp add: lvgl_cfg_def sint_uint)
  qed
  show "to_header_field lvgl_cfg v = v" if "0 \<le> v" "v < 2048"
    using that by (simp add: lvgl_cfg_def)
  show "to_header_field lvgl_cfg 8 = 8"
    by (simp add: lvgl_cfg_def)
qed

section \<open>The claims\<close>

text \<open>
  C1, as the code has it. When the source is a file with the accepted extension, the
  stream opens and \<^verbatim>\<open>jd_prepare\<close> returns \<^verbatim>\<open>JDR_OK\<close> with a session \<open>jd\<close>,
  \<^verbatim>\<open>decoder_info\<close> returns \<^verbatim>\<open>LV_RES_OK\<close> with a header whose width field is assigned
  the native width of \<open>jd\<close>, converted to \<^verbatim>\<open>lv_coord_t\<close> and divided by the scale
  divisor, and whose height field is assigned the constant 8, whatever the native
  height of \<open>jd\<close>. The width reads as the quotient of native width and divisor where
  the conversion keeps the native width, the divisor is positive and the field keeps
  the quotient; the height reads as 8 where the field keeps 8.
\<close>

theorem decoder_info_header:
  assumes "has_valid_extension fn = Some True"
    and "fopen (files s) (streams s) fn = (ss, Some i)"
    and "pool_ok (mem s) (work (user_ctx s)) TJPGD_WORK_BUFFER_SIZE"
    and "run_engine None (jd_prepare eng (work (user_ctx s)) TJPGD_WORK_BUFFER_SIZE)
           (s\<lparr>user_ctx := (user_ctx s)\<lparr>fp := Some i\<rparr>, streams := ss\<rparr>) = Some ((JDR_OK, jd), s2)"
  shows "\<exists>header' s'.
           decoder_info cfg eng LV_IMG_SRC_FILE fn header s = Some (LV_RES_OK, header', s')
         \<and> hdr_w header' =
             to_header_field cfg
               (c_div (to_lv_coord_t cfg (jd_width jd)) (LV_TJPGD_SCALING_FACTOR_DIV cfg))
         \<and> hdr_h header' = to_header_field cfg 8
         \<and> (to_lv_coord_t cfg (jd_width jd) = uint (jd_width jd)
              \<and> 0 < LV_TJPGD_SCALING_FACTOR_DIV cfg
              \<and> to_header_field cfg (uint (jd_width jd) div LV_TJPGD_SCALING_FACTOR_DIV cfg)
                  = uint (jd_width jd) div LV_TJPGD_SCALING_FACTOR_DIV cfg
            \<longrightarrow> hdr_w header' = uint (jd_width jd) div LV_TJPGD_SCALING_FACTOR_DIV cfg)
         \<and> (to_header_field cfg 8 = 8 \<longrightarrow> hdr_h header' = 8)"
  using assms
  by (simp add: decoder_info_def Let_def c_div_pos)

theorem decoder_info_header_witness:
  "\<exists>header' s'.
     decoder_info lvgl_cfg example_engine LV_IMG_SRC_FILE ''a.jpg'' example_header
       example_state = Some (LV_RES_OK, header', s')
     \<and> hdr_w header' = 2 \<and> hdr_h header' = 8"
proof -
  have ext: "has_valid_extension ''a.jpg'' = Some True"
    by (simp add: example_defs)
  have opn: "fopen (files example_state) (streams example_state) ''a.jpg''
      = ([\<lparr>content = [255, 216, 255, 217], pos = 0, seekable = True\<rparr>], Some 0)"
    by (simp add: example_defs)
  have pool: "pool_ok (mem example_state) (work (user_ctx example_state)) TJPGD_WORK_BUFFER_SIZE"
    by (simp add: example_defs)
  have run: "run_engine None
       (jd_prepare example_engine (work (user_ctx example_state)) TJPGD_WORK_BUFFER_SIZE)
       (example_state\<lparr>user_ctx := (user_ctx example_state)\<lparr>fp := Some 0\<rparr>,
          streams := [\<lparr>content = [255, 216, 255, 217], pos = 0, seekable = True\<rparr>]\<rparr>)
     = Some ((JDR_OK, \<lparr>jd_width = 2, jd_height = 16, jd_private = ()\<rparr>),
         prepared_state\<lparr>jdec := \<lparr>jd_width = 0, jd_height = 0, jd_private = ()\<rparr>,
           user_ctx := (user_ctx prepared_state)\<lparr>frame_buffer_width := 0,
             ctx_size := \<lparr>img_height = 0, img_width = 0\<rparr>\<rparr>\<rparr>)"
    by (simp add: example_defs)
  from decoder_info_header [OF ext opn pool run, of lvgl_cfg example_header]
  show ?thesis
    by (auto simp: lvgl_cfg_def c_div_def)
qed

text \<open>
  C1 as it is written fails on an image 40001 pixels wide under lvgl's types: the 16-bit
  \<^verbatim>\<open>lv_coord_t\<close> reads 40001 as -25535, the 11-bit field keeps 1089 of it, and the
  header reports the width 1089 where the native width divided by the divisor 1 is 40001.
\<close>

theorem decoder_info_header_counterexample:
  "decoder_info lvgl_cfg huge_engine LV_IMG_SRC_FILE ''a.jpg'' example_header example_state
     = Some (LV_RES_OK, \<lparr>hdr_always_zero = 0, hdr_cf = 1, hdr_w = 1089, hdr_h = 8\<rparr>,
         huge_prepared_state)
   \<and> jd_width (jdec huge_prepared_state) = 40001
   \<and> to_lv_coord_t lvgl_cfg (jd_width (jdec huge_prepared_state)) = - 25535
   \<and> uint (jd_width (jdec huge_prepared_state)) div LV_TJPGD_SCALING_FACTOR_DIV lvgl_cfg = 40001"
  by (simp add: example_defs lvgl_cfg_def huge_engine_def huge_prepared_state_def)

text \<open>
  C7. The feed callback on an open stream: with a buffer it stores the next \<open>n\<close> bytes of
  the stream (fewer at the end of the file), returns how many it stored and moves the
  position past them; without a buffer it moves the position \<open>n\<close> bytes forward and
  returns \<open>n\<close>, or returns 0 and stays where the stream cannot seek.
\<close>

theorem on_feed_decoder_cb_contract:
  assumes "fp (user_ctx s) = Some i" and "i < length (streams s)"
  shows "(\<exists>rv got s'. on_feed_decoder_cb True n s = Some (rv, got, s')
            \<and> got = take (unat n) (drop (pos (streams s ! i)) (content (streams s ! i)))
            \<and> unat rv = length got
            \<and> pos (streams s' ! i) = pos (streams s ! i) + length got)
       \<and> (\<exists>rv s'. on_feed_decoder_cb False n s = Some (rv, [], s')
            \<and> (if seekable (streams s ! i)
                then rv = n \<and> pos (streams s' ! i) = pos (streams s ! i) + unat n
                else rv = 0 \<and> pos (streams s' ! i) = pos (streams s ! i)))"
proof -
  have "unat n < 65536"
    using unsigned_less [of n, where ?'a = nat] by simp
  then have "min (length (content (streams s ! i)) - pos (streams s ! i)) (unat n) mod 65536
      = min (length (content (streams s ! i)) - pos (streams s ! i)) (unat n)"
    by simp
  with assms show ?thesis
    by (auto simp: on_feed_decoder_cb_def Let_def fread_def fseek_cur_def unat_of_nat)
qed

theorem on_feed_decoder_cb_contract_witness:
  "(\<exists>rv got s'. on_feed_decoder_cb True 5 prepared_state = Some (rv, got, s')
      \<and> got = [255, 217] \<and> unat rv = 2 \<and> pos (streams s' ! 0) = 4)
   \<and> (\<exists>rv s'. on_feed_decoder_cb False 5 prepared_state = Some (rv, [], s')
      \<and> rv = 5 \<and> pos (streams s' ! 0) = 7)"
proof -
  have f: "fp (user_ctx prepared_state) = Some 0"
    by (simp add: prepared_state_def)
  have l: "0 < length (streams prepared_state)"
    by (simp add: prepared_state_def)
  from on_feed_decoder_cb_contract [OF f l, of 5] show ?thesis
    by (auto simp: prepared_state_def)
qed

text \<open>
  C9. \<^verbatim>\<open>decoder_read\<close> does not look at \<open>x\<close> and \<open>y\<close>: two calls from the same state
  with the same \<open>len\<close> have the same result, the same bytes and the same new state.
\<close>

theorem decoder_read_ignores_xy:
  "decoder_read cfg eng dsc x y len s = decoder_read cfg eng dsc x' y' len s"
  by (simp add: decoder_read_def)








text \<open>
  C4 at a file cut off after its header: \<^verbatim>\<open>jd_decomp\<close> returns \<^verbatim>\<open>JDR_INP\<close>, and
  \<^verbatim>\<open>decoder_read\<close> returns \<^verbatim>\<open>LV_RES_OK\<close> with the bytes of the fresh buffer and marks
  the strip as buffered, so that the next call is served from that buffer without
  another decompression.
\<close>

theorem decoder_read_ignores_decomp_error:
  "decoder_info example_cfg truncated_engine LV_IMG_SRC_FILE ''a.jpg'' example_header
     example_state
     = Some (LV_RES_OK, \<lparr>hdr_always_zero = 0, hdr_cf = 1, hdr_w = 2, hdr_h = 8\<rparr>, prepared_state)
   \<and> jd_decomp truncated_engine ((jdec prepared_state)\<lparr>jd_height := 8\<rparr>)
       (LV_TJPGD_SCALING_FACTOR example_cfg) = JD_Return (JDR_INP, ())
   \<and> \<not> buffered_data prepared_state
   \<and> map_option (\<lambda>(r, out, s'). (r, out, buffered_data s', lines_sent s'))
        (decoder_read example_cfg truncated_engine example_dsc 0 0 2 prepared_state)
        = Some (LV_RES_OK, replicate 6 0, True, 1)
   \<and> map_option fst
        (read_lines example_cfg truncated_engine example_dsc [(0, 0, 2), (0, 1, 2)]
           prepared_state)
        = Some [(LV_RES_OK, replicate 6 0, 1), (LV_RES_OK, replicate 6 0, 0)]"
  by (simp add: example_defs truncated_engine_def)

text \<open>
  C5, as the code has it. When the stream opens and \<^verbatim>\<open>jd_prepare\<close> returns an error,
  \<^verbatim>\<open>decoder_info\<close> returns \<^verbatim>\<open>LV_RES_INV\<close> with the header untouched; the heap and
  the frame buffer pointer are as before the call, and the stream it opened is still
  in the table of open streams, referenced by \<^verbatim>\<open>user_ctx.fp\<close>.
\<close>

theorem decoder_info_failure_keeps_stream:
  assumes "has_valid_extension fn = Some True"
    and "fopen (files s) (streams s) fn = (ss, Some i)"
    and "pool_ok (mem s) (work (user_ctx s)) TJPGD_WORK_BUFFER_SIZE"
    and "run_engine None (jd_prepare eng (work (user_ctx s)) TJPGD_WORK_BUFFER_SIZE)
           (s\<lparr>user_ctx := (user_ctx s)\<lparr>fp := Some i\<rparr>, streams := ss\<rparr>) = Some ((res, jd), s2)"
    and "res \<noteq> JDR_OK"
  shows "decoder_info cfg eng LV_IMG_SRC_FILE fn header s
           = Some (LV_RES_INV, header, s2\<lparr>jdec := jd\<rparr>)
       \<and> fp (user_ctx s2) = Some i \<and> i < length (streams s2)
       \<and> length (streams s2) = length (streams s) + 1
       \<and> mem s2 = mem s
       \<and> frame_buffer (user_ctx s2) = frame_buffer (user_ctx s)"
proof -
  from assms(2) have ss: "length ss = length (streams s) + 1" and i: "i = length (streams s)"
    by (auto simp: fopen_def split: option.splits)
  from run_engine_prepare_frame [OF assms(4)] ss i
  have "fp (user_ctx s2) = Some i \<and> i < length (streams s2)
       \<and> length (streams s2) = length (streams s) + 1
       \<and> mem s2 = mem s
       \<and> frame_buffer (user_ctx s2) = frame_buffer (user_ctx s)"
    by simp
  moreover from assms have "decoder_info cfg eng LV_IMG_SRC_FILE fn header s
           = Some (LV_RES_INV, header, s2\<lparr>jdec := jd\<rparr>)"
    by (simp add: decoder_info_def Let_def)
  ultimately show ?thesis by simp
qed

theorem decoder_info_failure_keeps_stream_witness:
  "decoder_info example_cfg failing_engine LV_IMG_SRC_FILE ''a.jpg'' example_header example_state
     = Some (LV_RES_INV, example_header,
         example_state\<lparr>user_ctx := (user_ctx example_state)\<lparr>fp := Some 0\<rparr>,
           streams := [\<lparr>content = [255, 216, 255, 217], pos = 0, seekable = True\<rparr>]\<rparr>)
   \<and> mem example_state = [\<lparr>bytes = replicate 20480 0, live = True\<rparr>]"
proof -
  have ext: "has_valid_extension ''a.jpg'' = Some True"
    by (simp add: example_defs)
  have opn: "fopen (files example_state) (streams example_state) ''a.jpg''
      = ([\<lparr>content = [255, 216, 255, 217], pos = 0, seekable = True\<rparr>], Some 0)"
    by (simp add: example_defs)
  have pool: "pool_ok (mem example_state) (work (user_ctx example_state)) TJPGD_WORK_BUFFER_SIZE"
    by (simp add: example_defs)
  have run: "run_engine None
       (jd_prepare failing_engine (work (user_ctx example_state)) TJPGD_WORK_BUFFER_SIZE)
       (example_state\<lparr>user_ctx := (user_ctx example_state)\<lparr>fp := Some 0\<rparr>,
          streams := [\<lparr>content = [255, 216, 255, 217], pos = 0, seekable = True\<rparr>]\<rparr>)
     = Some ((JDR_FMT1, \<lparr>jd_width = 0, jd_height = 0, jd_private = ()\<rparr>),
         example_state\<lparr>user_ctx := (user_ctx example_state)\<lparr>fp := Some 0\<rparr>,
          streams := [\<lparr>content = [255, 216, 255, 217], pos = 0, seekable = True\<rparr>]\<rparr>)"
    by (simp add: failing_engine_def)
  have ne: "JDR_FMT1 \<noteq> JDR_OK"
    by simp
  from decoder_info_failure_keeps_stream [OF ext opn pool run ne, of example_cfg example_header]
  show ?thesis
    by (simp add: example_state_def startup_state_def lv_tjpgd_init_def malloc_def
          TJPGD_WORK_BUFFER_SIZE_def)
qed

text \<open>
  C5 as it is written fails where \<^verbatim>\<open>jd_prepare\<close> rejects the file: no stream is open
  before the call, \<^verbatim>\<open>decoder_info\<close> returns \<^verbatim>\<open>LV_RES_INV\<close>, and one stream is open
  after it.
\<close>

theorem decoder_info_failure_counterexample:
  "streams example_state = []
   \<and> decoder_info example_cfg failing_engine LV_IMG_SRC_FILE ''a.jpg'' example_header
        example_state = Some (LV_RES_INV, example_header, failed_info_state)
   \<and> fp (user_ctx failed_info_state) = Some 0
   \<and> streams failed_info_state
        = [\<lparr>content = [255, 216, 255, 217], pos = 0, seekable = True\<rparr>]"
  by (simp add: example_defs failing_engine_def failed_info_state_def)

section \<open>The row copy of the output callback\<close>

lemma copy_lines_rows:
  "unat ybot < 65535 \<Longrightarrow>
     copy_lines y ybot bitmap sp dst bws bwd hp
       = copy_rows (unat ybot + 1 - unat y) bitmap sp dst bws bwd hp"
proof (induction "unat ybot + 1 - unat y" arbitrary: y sp dst hp)
  case 0
  then have "\<not> y \<le> ybot"
    by (simp add: word_le_nat_alt)
  with 0 show ?case
    by (subst copy_lines.simps) simp
next
  case (Suc n)
  from Suc.hyps(2) have le: "y \<le> ybot"
    by (simp add: word_le_nat_alt)
  with Suc.prems have "unat y + 1 < 65536"
    by (simp add: word_le_nat_alt)
  then have y1: "unat (y + 1) = unat y + 1"
    by (simp add: unat_word_ariths)
  with Suc.hyps(2) have n: "n = unat ybot + 1 - unat (y + 1)"
    by simp
  have rows: "unat ybot + 1 - unat y = Suc n"
    using Suc.hyps(2) by simp
  from n have n': "Suc (unat ybot) - unat (y + 1) = n"
    by simp
  show ?case
    unfolding rows
    by (subst copy_lines.simps)
      (simp add: le n' Suc.hyps(1) [OF n Suc.prems] split: option.splits)
qed

lemma line_bws_exact:
  assumes "rect_left rect \<le> rect_right rect"
    and "BYTES_ON_PIXEL cfg * (unat (rect_right rect) - unat (rect_left rect) + 1) < 65536"
  shows "unat (line_bws cfg rect)
      = BYTES_ON_PIXEL cfg * (unat (rect_right rect) - unat (rect_left rect) + 1)"
proof -
  from assms(1) have lr: "unat (rect_left rect) \<le> unat (rect_right rect)"
    by (simp add: word_le_nat_alt)
  have "uint (rect_right rect) - uint (rect_left rect) + 1
      = int (unat (rect_right rect) - unat (rect_left rect) + 1)"
    using lr by (simp add: of_nat_diff)
  then have "int (BYTES_ON_PIXEL cfg) * (uint (rect_right rect) - uint (rect_left rect) + 1)
      = int (BYTES_ON_PIXEL cfg * (unat (rect_right rect) - unat (rect_left rect) + 1))"
    by (simp only: of_nat_mult)
  then have "line_bws cfg rect
      = word_of_nat (BYTES_ON_PIXEL cfg * (unat (rect_right rect) - unat (rect_left rect) + 1))"
    unfolding line_bws_def by (simp only: of_int_of_nat_eq)
  with assms(2) show ?thesis
    by (simp only: unat_of_nat) simp
qed

lemma line_bwd_exact:
  assumes "BYTES_ON_PIXEL cfg * unat (frame_buffer_width ctx) < 65536"
  shows "unat (line_bwd cfg ctx) = BYTES_ON_PIXEL cfg * unat (frame_buffer_width ctx)"
  using assms unfolding line_bwd_def by (simp only: unat_of_nat) simp

lemma on_decoder_line_output_cb_rows:
  assumes "unat (rect_bottom rect) < 65535"
    and "rect_left rect \<le> rect_right rect"
    and "BYTES_ON_PIXEL cfg * (unat (rect_right rect) - unat (rect_left rect) + 1) < 65536"
    and "BYTES_ON_PIXEL cfg * unat (frame_buffer_width (user_ctx s)) < 65536"
  shows "on_decoder_line_output_cb cfg bitmap rect s =
     (case copy_rows (unat (rect_bottom rect) + 1 - unat (rect_top rect)) bitmap 0
             (ptr_add (frame_buffer (user_ctx s))
                (BYTES_ON_PIXEL cfg *
                   (unat (rect_top rect) * unat (frame_buffer_width (user_ctx s))
                    + unat (rect_left rect))))
             (BYTES_ON_PIXEL cfg * (unat (rect_right rect) - unat (rect_left rect) + 1))
             (BYTES_ON_PIXEL cfg * unat (frame_buffer_width (user_ctx s))) (mem s) of
        None \<Rightarrow> None
      | Some hp \<Rightarrow>
          Some (1, s\<lparr>user_ctx := (user_ctx s)\<lparr>
                       out_func_calls := out_func_calls (user_ctx s) + 1,
                       last_decoded_coord := rect\<rparr>,
                     mem := hp\<rparr>))"
proof -
  let ?ctx = "(user_ctx s)\<lparr>out_func_calls := out_func_calls (user_ctx s) + 1,
                last_decoded_coord := rect\<rparr>"
  have w: "frame_buffer_width ?ctx = frame_buffer_width (user_ctx s)"
    by simp
  have bwd: "unat (line_bwd cfg ?ctx) = BYTES_ON_PIXEL cfg * unat (frame_buffer_width (user_ctx s))"
    using line_bwd_exact [of cfg ?ctx] assms(4) unfolding w by simp
  have dst: "line_dst cfg ?ctx rect = ptr_add (frame_buffer (user_ctx s))
                (BYTES_ON_PIXEL cfg *
                   (unat (rect_top rect) * unat (frame_buffer_width (user_ctx s))
                    + unat (rect_left rect)))"
    by (simp add: line_dst_def)
  show ?thesis
    unfolding on_decoder_line_output_cb_def Let_def
      copy_lines_rows [OF assms(1)] line_bws_exact [OF assms(2,3)] bwd dst
    by simp
qed

section \<open>The claims on the callbacks, on closing and on the session height\<close>

text \<open>
  C8 at an image 21846 pixels wide with three bytes per pixel: the stride in bytes is
  65538, the 16-bit \<open>bwd\<close> keeps 2 of it, and the second row of a rectangle lands two
  bytes after the first, over its last byte, instead of one frame-buffer row below. The
  callback returns 1, and the first line \<^verbatim>\<open>decoder_read\<close> delivers holds bytes of both
  rows.
\<close>

theorem line_output_stride_wraps:
  "decoder_info example_cfg wide_engine LV_IMG_SRC_FILE ''a.jpg'' example_header example_state
     = Some (LV_RES_OK, \<lparr>hdr_always_zero = 0, hdr_cf = 1, hdr_w = 21846, hdr_h = 8\<rparr>,
         wide_prepared_state)
   \<and> BYTES_ON_PIXEL example_cfg * unat (frame_buffer_width (user_ctx wide_state)) = 65538
   \<and> unat (line_bwd example_cfg (user_ctx wide_state)) = 2
   \<and> map_option (\<lambda>(rv, s'). (rv, map bytes (mem s')))
        (on_decoder_line_output_cb example_cfg [1, 2, 3, 4, 5, 6] wide_rect wide_state)
     = Some (1, [replicate 20480 0, [1, 2, 4, 5, 6] @ replicate 524299 0])
   \<and> map_option (\<lambda>(r, out, s'). (r, out))
        (decoder_read example_cfg wide_engine example_dsc 0 0 2 wide_prepared_state)
     = Some (LV_RES_OK, [1, 2, 4, 5, 6, 0])"
  by (simp add: example_defs wide_engine_def wide_prepared_state_def wide_state_def
        wide_rect_def)

text \<open>
  The same image under lvgl's header fields of 11 bits: the header and the strip buffer
  are sized for 1366 pixels, the stride is still computed from the native width, and the
  first line delivered is the same.
\<close>

lemma line_output_stride_wraps_lvgl:
  "decoder_info lvgl_cfg wide_engine LV_IMG_SRC_FILE ''a.jpg'' example_header example_state
     = Some (LV_RES_OK, \<lparr>hdr_always_zero = 0, hdr_cf = 1, hdr_w = 1366, hdr_h = 8\<rparr>,
         wide_prepared_state\<lparr>user_ctx := (user_ctx wide_prepared_state)\<lparr>
           ctx_size := \<lparr>img_height = 8, img_width = 1366\<rparr>\<rparr>\<rparr>)
   \<and> map_option (\<lambda>(r, out, s'). (r, out, map (length \<circ> bytes) (mem s')))
        (decoder_read lvgl_cfg wide_engine example_dsc 0 0 2
           (wide_prepared_state\<lparr>user_ctx := (user_ctx wide_prepared_state)\<lparr>
              ctx_size := \<lparr>img_height = 8, img_width = 1366\<rparr>\<rparr>\<rparr>))
     = Some (LV_RES_OK, [1, 2, 4, 5, 6, 0], [20480, 32784])"
  by (simp add: example_defs lvgl_cfg_def wide_engine_def wide_prepared_state_def wide_rect_def)

text \<open>
  C6 on the session that has read one line: \<^verbatim>\<open>decoder_close\<close> frees the work area and
  nothing else. The strip buffer stays allocated, the stream stays open, and the cache
  flags stay set, so that the next \<^verbatim>\<open>decoder_read\<close> serves the second row of the old strip
  without decoding; and the next \<^verbatim>\<open>decoder_info\<close> hands the freed work area to the engine.
\<close>

theorem decoder_close_leaves_session:
  "decoder_read example_cfg example_engine example_dsc 0 0 2 prepared_state
     = Some (LV_RES_OK, [1, 2, 3, 4, 5, 6], strip_state)
   \<and> dsc_img_data example_dsc = None
   \<and> decoder_close example_dsc strip_state = Some closed_state
   \<and> map live (mem closed_state) = [False, True]
   \<and> frame_buffer (user_ctx closed_state) = Some (1, 0)
   \<and> fp (user_ctx closed_state) = Some 0 \<and> length (streams closed_state) = 1
   \<and> buffered_data closed_state \<and> lines_sent closed_state = 1
   \<and> map_option (\<lambda>(r, out, s'). (r, out, decomp_calls s' - decomp_calls closed_state))
        (decoder_read example_cfg example_engine example_dsc 0 0 2 closed_state)
      = Some (LV_RES_OK, [7, 8, 9, 10, 11, 12], 0)
   \<and> decoder_info example_cfg example_engine LV_IMG_SRC_FILE ''a.jpg'' example_header
        closed_state = None"
  using example_first_read
  by (simp add: example_defs closed_state_def)

section \<open>The height of the session\<close>






end
